theory Spec2Isabelle
  imports Main "HOL-Library.Word"
begin

section \<open>Machine integers of the header\<close>

text \<open>
  \<^verbatim>\<open>osd/drawContext.h\<close> uses \<^verbatim>\<open>int\<close>, \<^verbatim>\<open>unsigned int\<close> and \<^verbatim>\<open>Far::Index\<close>.
  All three are 32-bit values here; \<open>sint\<close> reads a value as \<^verbatim>\<open>int\<close>, \<open>uint\<close> and
  \<open>unat\<close> read it as \<^verbatim>\<open>unsigned int\<close>. The conversion of an \<^verbatim>\<open>int\<close> to
  \<^verbatim>\<open>unsigned int\<close> keeps the bit pattern (the value modulo \<open>2 ^ 32\<close>); arithmetic
  on \<^verbatim>\<open>int\<close> is taken to wrap around, as the multiplication of words does.
  \<^verbatim>\<open>Far::Index\<close> is declared in \<^verbatim>\<open>far/types.h\<close>; the constructor of PatchArray
  stores it next to an \<^verbatim>\<open>int\<close> and the getters return it as \<^verbatim>\<open>unsigned int\<close>.
\<close>

type_synonym c_int = "32 word"
type_synonym c_uint = "32 word"
type_synonym Index = "32 word"

definition int_to_unsigned :: "c_int \<Rightarrow> c_uint" where
  "int_to_unsigned x = x"

section \<open>Far::PatchDescriptor\<close>

text \<open>
  Modelled from the spec: \<^verbatim>\<open>far/patchDescriptor.h\<close> is included by the header and
  is not part of the sources at hand. The spec gives a descriptor a type tag (regular,
  boundary, corner, Gregory, Gregory-boundary, transition-variant), a transition pattern
  identifier and a rotation (0 to 3), compared by value.
\<close>

datatype PatchType =
  REGULAR | BOUNDARY | CORNER | GREGORY | GREGORY_BOUNDARY | TRANSITION

record PatchDescriptor =
  ptype :: PatchType
  pattern :: nat
  rotation :: nat

text \<open>
  \<^verbatim>\<open>GetNumControlVertices()\<close> of a descriptor lives in the same absent header. Every
  definition below that needs it takes it as the parameter \<open>numCV\<close>: the value of
  \<^verbatim>\<open>_desc.GetNumControlVertices()\<close> after the integer promotion that the
  multiplication in \<^verbatim>\<open>GetNumIndices\<close> applies to it.
\<close>

type_synonym NumCV = "PatchDescriptor \<Rightarrow> c_int"

section \<open>DrawContext::PatchArray\<close>

record PatchArray =
  m_desc :: PatchDescriptor
  m_npatches :: c_int
  m_vertIndex :: Index
  m_patchIndex :: Index
  m_quadOffsetIndex :: Index

text \<open>The constructor: a member initialiser list, one member per argument.\<close>

definition PatchArray ::
  "PatchDescriptor \<Rightarrow> c_int \<Rightarrow> Index \<Rightarrow> Index \<Rightarrow> Index \<Rightarrow> PatchArray" where
  "PatchArray desc npatches vertIndex patchIndex qoIndex =
     \<lparr>m_desc = desc, m_npatches = npatches, m_vertIndex = vertIndex,
      m_patchIndex = patchIndex, m_quadOffsetIndex = qoIndex\<rparr>"

definition GetDescriptor :: "PatchArray \<Rightarrow> PatchDescriptor" where
  "GetDescriptor pa = m_desc pa"

definition SetDescriptor :: "PatchDescriptor \<Rightarrow> PatchArray \<Rightarrow> PatchArray" where
  "SetDescriptor desc pa = pa\<lparr>m_desc := desc\<rparr>"

definition GetVertIndex :: "PatchArray \<Rightarrow> c_uint" where
  "GetVertIndex pa = int_to_unsigned (m_vertIndex pa)"

definition GetPatchIndex :: "PatchArray \<Rightarrow> c_uint" where
  "GetPatchIndex pa = int_to_unsigned (m_patchIndex pa)"

definition GetNumPatches :: "PatchArray \<Rightarrow> c_uint" where
  "GetNumPatches pa = int_to_unsigned (m_npatches pa)"

text \<open>
  \<^verbatim>\<open>return _npatches * _desc.GetNumControlVertices();\<close> multiplies two
  \<^verbatim>\<open>int\<close>s and converts the product to the \<^verbatim>\<open>unsigned int\<close> result.
\<close>

definition GetNumIndices :: "NumCV \<Rightarrow> PatchArray \<Rightarrow> c_uint" where
  "GetNumIndices numCV pa = int_to_unsigned (m_npatches pa * numCV (m_desc pa))"

definition GetQuadOffsetIndex :: "PatchArray \<Rightarrow> c_uint" where
  "GetQuadOffsetIndex pa = int_to_unsigned (m_quadOffsetIndex pa)"

definition SetNumPatches :: "c_int \<Rightarrow> PatchArray \<Rightarrow> PatchArray" where
  "SetNumPatches npatches pa = pa\<lparr>m_npatches := npatches\<rparr>"

text \<open>
  The member functions of PatchArray that are not \<^verbatim>\<open>const\<close> are the two setters; a
  call sequence on one PatchArray is a list of them.
\<close>

datatype PatchArrayCall =
  CallSetDescriptor PatchDescriptor
| CallSetNumPatches c_int

fun call :: "PatchArray \<Rightarrow> PatchArrayCall \<Rightarrow> PatchArray" where
  "call pa (CallSetDescriptor desc) = SetDescriptor desc pa"
| "call pa (CallSetNumPatches npatches) = SetNumPatches npatches pa"

definition calls :: "PatchArrayCall list \<Rightarrow> PatchArray \<Rightarrow> PatchArray" where
  "calls cs pa = foldl call pa cs"

text \<open>
  The class declares no assignment operator, and none of its members is \<^verbatim>\<open>const\<close> or
  a reference, so it has the implicit public copy assignment of C++, which assigns
  member by member. The header relies on it: \<^verbatim>\<open>PatchArrayVector\<close> is a
  \<^verbatim>\<open>std::vector\<close> of PatchArray, and whoever rewrites the list through the writable
  accessor assigns its elements.
\<close>

definition operator_assign :: "PatchArray \<Rightarrow> PatchArray \<Rightarrow> PatchArray" where
  "operator_assign rhs pa =
     pa\<lparr>m_desc := m_desc rhs, m_npatches := m_npatches rhs, m_vertIndex := m_vertIndex rhs,
        m_patchIndex := m_patchIndex rhs, m_quadOffsetIndex := m_quadOffsetIndex rhs\<rparr>"

text \<open>
  Every operation that changes a constructed PatchArray is a call of a setter or an
  assignment; \<open>lastAssigned\<close> is the value assigned last in a sequence of them, if any.
\<close>

datatype PatchArrayOp =
  OpCall PatchArrayCall
| OpAssign PatchArray

fun perform :: "PatchArray \<Rightarrow> PatchArrayOp \<Rightarrow> PatchArray" where
  "perform pa (OpCall c) = call pa c"
| "perform pa (OpAssign rhs) = operator_assign rhs pa"

definition performAll :: "PatchArrayOp list \<Rightarrow> PatchArray \<Rightarrow> PatchArray" where
  "performAll os pa = foldl perform pa os"

fun lastAssigned :: "PatchArrayOp list \<Rightarrow> PatchArray option" where
  "lastAssigned [] = None"
| "lastAssigned (OpCall c # os) = lastAssigned os"
| "lastAssigned (OpAssign rhs # os) =
     (case lastAssigned os of None \<Rightarrow> Some rhs | Some later \<Rightarrow> Some later)"

section \<open>DrawContext\<close>

record DrawContext =
  m_patchArrays :: "PatchArray list"
  m_isAdaptive :: bool
  m_maxValence :: c_int

text \<open>
  \<^verbatim>\<open>DrawContext(int maxValence) : _isAdaptive(false), _maxValence(maxValence) {}\<close>;
  the vector member is default-constructed, hence empty.
\<close>

definition DrawContext :: "c_int \<Rightarrow> DrawContext" where
  "DrawContext maxValence =
     \<lparr>m_patchArrays = [], m_isAdaptive = False, m_maxValence = maxValence\<rparr>"

definition IsAdaptive :: "DrawContext \<Rightarrow> bool" where
  "IsAdaptive c = m_isAdaptive c"

definition GetPatchArrays :: "DrawContext \<Rightarrow> PatchArray list" where
  "GetPatchArrays c = m_patchArrays c"


text \<open>
  The writable accessor returns a reference to \<^verbatim>\<open>_patchArrays\<close>. What the caller does
  through the reference is a function \<open>f\<close> on the list; this covers a static
  \<^verbatim>\<open>ConvertPatchArrays(tables, context.GetPatchArrays())\<close> as well as the
  merging of arrays by a backend.
\<close>

definition GetPatchArrays_writable ::
  "(PatchArray list \<Rightarrow> PatchArray list) \<Rightarrow> DrawContext \<Rightarrow> DrawContext" where
  "GetPatchArrays_writable f c = c\<lparr>m_patchArrays := f (m_patchArrays c)\<rparr>"

text \<open>
  The public operations on a constructed context. The three \<^verbatim>\<open>const\<close> member
  functions return a value and leave the object as it is.
\<close>

datatype ContextCall =
  CallIsAdaptive
| CallGetPatchArrays
| CallGetPatchArrays_writable "PatchArray list \<Rightarrow> PatchArray list"
| CallGetMaxValence

fun ctxCall :: "DrawContext \<Rightarrow> ContextCall \<Rightarrow> DrawContext" where
  "ctxCall c CallIsAdaptive = c"
| "ctxCall c CallGetPatchArrays = c"
| "ctxCall c (CallGetPatchArrays_writable f) = GetPatchArrays_writable f c"
| "ctxCall c CallGetMaxValence = c"

definition ctxCalls :: "ContextCall list \<Rightarrow> DrawContext \<Rightarrow> DrawContext" where
  "ctxCalls cs c = foldl ctxCall c cs"

section \<open>Far::PatchTables\<close>

text \<open>
  Modelled from the spec: \<^verbatim>\<open>Far::PatchTables\<close> is only forward-declared in the
  header. The spec's patch table is the native representation of all patches and their
  per-patch data: a sequence of native groups in table order, each with a descriptor
  and its patches; a patch has its control-vertex indices, its sharpness scalars (none
  when it carries no sharpness attribute), its quad-offset indices (used by Gregory
  types) and the positions of its face-varying values in the source face-varying
  buffer, counted in units of the channel width. The patch count of a group is the
  number of its patches.
\<close>

record NativePatch =
  pVerts :: "Index list"
  pSharpness :: "c_uint list"
  pQuadOffsets :: "Index list"
  pFVarSource :: "nat list"

record NativeGroup =
  gDescriptor :: PatchDescriptor
  gPatches :: "NativePatch list"

type_synonym PatchTables = "NativeGroup list"

definition numPatches :: "NativeGroup \<Rightarrow> nat" where
  "numPatches g = length (gPatches g)"

text \<open>
  Modelled from the spec: a structurally valid table is one whose group counts match
  the buffer lengths, so every patch of a group has as many control-vertex indices as
  the group's descriptor says. The count of a group is passed to the constructor of
  PatchArray as an \<^verbatim>\<open>int\<close>, which it has to fit.
\<close>

definition validGroup :: "NumCV \<Rightarrow> NativeGroup \<Rightarrow> bool" where
  "validGroup numCV g \<longleftrightarrow>
     numPatches g < 2 ^ 31 \<and>
     list_all (\<lambda>p. int (length (pVerts p)) = sint (numCV (gDescriptor g))) (gPatches g)"

definition validTable :: "NumCV \<Rightarrow> PatchTables \<Rightarrow> bool" where
  "validTable numCV table = list_all (validGroup numCV) table"

text \<open>
  Modelled from the spec: a malformed table or a transition pattern without a
  decomposition rule is a contract violation, a fatal error and the only kind there is.
\<close>

datatype error = ContractViolation

section \<open>The table packers\<close>

text \<open>
  Modelled from the spec: the bodies of \<^verbatim>\<open>packPatchVerts\<close>,
  \<^verbatim>\<open>packSharpnessValues\<close> and \<^verbatim>\<open>packFVarData\<close> are not in the header. Each
  walks the groups in table order and appends to its output; \<open>appendAll\<close> is that walk,
  stopping at the first failed invariant check. The functions return what the header's
  \<^verbatim>\<open>dst\<close> holds when it was passed in empty.
\<close>

fun appendAll :: "('a \<Rightarrow> error + 'b list) \<Rightarrow> 'a list \<Rightarrow> error + 'b list" where
  "appendAll f [] = Inr []"
| "appendAll f (x # xs) =
     (case f x of
        Inl e \<Rightarrow> Inl e
      | Inr ys \<Rightarrow> (case appendAll f xs of Inl e \<Rightarrow> Inl e | Inr zs \<Rightarrow> Inr (ys @ zs)))"

text \<open>
  Vertex-index packer: for every native group in table order, append its
  control-vertex indices. A patch whose number of indices is not the descriptor's count
  is the mismatch that the invariant check catches.
\<close>

definition patchVerts :: "NumCV \<Rightarrow> PatchDescriptor \<Rightarrow> NativePatch \<Rightarrow> error + Index list" where
  "patchVerts numCV d p =
     (if int (length (pVerts p)) = sint (numCV d) then Inr (pVerts p)
      else Inl ContractViolation)"

definition packPatchVerts :: "NumCV \<Rightarrow> PatchTables \<Rightarrow> error + Index list" where
  "packPatchVerts numCV table =
     appendAll (\<lambda>g. appendAll (patchVerts numCV (gDescriptor g)) (gPatches g)) table"

text \<open>
  Sharpness packer: for every patch that carries a sharpness attribute, append its
  scalars in group order; the other patches contribute nothing. The header's output is
  a vector of \<^verbatim>\<open>unsigned int\<close>.
\<close>

definition packSharpnessValues :: "PatchTables \<Rightarrow> c_uint list" where
  "packSharpnessValues table = concat (map (\<lambda>g. concat (map pSharpness (gPatches g))) table)"

text \<open>
  Face-varying packer: for every patch, in the group order of the vertex-index packer,
  copy its values out of the source buffer, \<open>fvarWidth\<close> values from each of its
  positions. The values are copied, never computed with, so their type (the header's
  \<^verbatim>\<open>float\<close>) is a parameter. A position beyond the source buffer is a mismatch.
\<close>

definition fvarAt :: "nat \<Rightarrow> 'f list \<Rightarrow> nat \<Rightarrow> error + 'f list" where
  "fvarAt fvarWidth src i =
     (if i * fvarWidth + fvarWidth \<le> length src
      then Inr (take fvarWidth (drop (i * fvarWidth) src))
      else Inl ContractViolation)"

definition packFVarData :: "PatchTables \<Rightarrow> nat \<Rightarrow> 'f list \<Rightarrow> error + 'f list" where
  "packFVarData table fvarWidth src =
     appendAll (\<lambda>g. appendAll (\<lambda>p. appendAll (fvarAt fvarWidth src) (pFVarSource p))
       (gPatches g)) table"

section \<open>The patch array converter\<close>

text \<open>
  Modelled from the spec: the body of \<^verbatim>\<open>ConvertPatchArrays\<close> is not in the header.
  The decomposition rule (which descriptors the hardware tessellates directly, and the
  sub-patch descriptors every other transition pattern decomposes into) is domain
  knowledge that the spec leaves to a table; it is the parameter \<open>rule\<close>.
\<close>

datatype Tessellation =
  Direct
| Split "PatchDescriptor list"
| NoRule

type_synonym Rule = "PatchDescriptor \<Rightarrow> Tessellation"

record Offsets =
  vertexOffset :: Index
  patchOffset :: Index
  quadOffset :: Index

definition zeroOffsets :: Offsets where
  "zeroOffsets = \<lparr>vertexOffset = 0, patchOffset = 0, quadOffset = 0\<rparr>"

definition isGregory :: "PatchDescriptor \<Rightarrow> bool" where
  "isGregory d \<longleftrightarrow> ptype d = GREGORY \<or> ptype d = GREGORY_BOUNDARY"

text \<open>
  What a native group consumes: its patch count times the control-vertex count of its
  descriptor in the vertex-index buffer, its patch count in the patch index, and, for a
  Gregory type only, its quad-offset indices.
\<close>

definition quadContribution :: "NativeGroup \<Rightarrow> Index" where
  "quadContribution g =
     (if isGregory (gDescriptor g)
      then of_nat (sum_list (map (\<lambda>p. length (pQuadOffsets p)) (gPatches g)))
      else 0)"

definition advance :: "NumCV \<Rightarrow> Offsets \<Rightarrow> NativeGroup \<Rightarrow> Offsets" where
  "advance numCV off g =
     \<lparr>vertexOffset = vertexOffset off + of_nat (numPatches g) * numCV (gDescriptor g),
      patchOffset = patchOffset off + of_nat (numPatches g),
      quadOffset = quadOffset off + quadContribution g\<rparr>"

text \<open>
  The arrays of one group. A directly tessellable group gives one PatchArray with the
  group's descriptor and patch count at the running offsets. A group that has to be
  split gives one PatchArray per sub-pattern of its rule, in the rule's order, each over
  the same source range: the running offsets and the group's patch count. (The spec's
  alternative, an expanded range where the splitting duplicates indices, is not
  modelled.)
\<close>

definition emit :: "Rule \<Rightarrow> Offsets \<Rightarrow> NativeGroup \<Rightarrow> error + PatchArray list" where
  "emit rule off g =
     (case rule (gDescriptor g) of
        Direct \<Rightarrow>
          Inr [PatchArray (gDescriptor g) (of_nat (numPatches g))
                 (vertexOffset off) (patchOffset off) (quadOffset off)]
      | Split subs \<Rightarrow>
          Inr (map (\<lambda>sub. PatchArray sub (of_nat (numPatches g))
                 (vertexOffset off) (patchOffset off) (quadOffset off)) subs)
      | NoRule \<Rightarrow> Inl ContractViolation)"

text \<open>
  A group with zero patches is skipped entirely: no PatchArray, no offset advance.
  Every other group emits its arrays, and the offsets advance by the total the group
  consumes, once.
\<close>

definition convertGroup ::
  "NumCV \<Rightarrow> Rule \<Rightarrow> Offsets \<Rightarrow> NativeGroup \<Rightarrow> error + (PatchArray list \<times> Offsets)" where
  "convertGroup numCV rule off g =
     (if numPatches g = 0 then Inr ([], off)
      else (case emit rule off g of
              Inl e \<Rightarrow> Inl e
            | Inr arrays \<Rightarrow> Inr (arrays, advance numCV off g)))"

fun convertLoop ::
  "NumCV \<Rightarrow> Rule \<Rightarrow> Offsets \<Rightarrow> PatchTables \<Rightarrow> error + (PatchArray list \<times> Offsets)" where
  "convertLoop numCV rule off [] = Inr ([], off)"
| "convertLoop numCV rule off (g # gs) =
     (case convertGroup numCV rule off g of
        Inl e \<Rightarrow> Inl e
      | Inr (arrays, off') \<Rightarrow>
          (case convertLoop numCV rule off' gs of
             Inl e \<Rightarrow> Inl e
           | Inr (rest, off'') \<Rightarrow> Inr (arrays @ rest, off'')))"

text \<open>
  The running offsets start at zero; the result is the list that the header's
  \<^verbatim>\<open>osdPatchArrays\<close> holds when it was passed in empty.
\<close>

definition ConvertPatchArrays :: "NumCV \<Rightarrow> Rule \<Rightarrow> PatchTables \<Rightarrow> error + PatchArray list" where
  "ConvertPatchArrays numCV rule table =
     (case convertLoop numCV rule zeroOffsets table of
        Inl e \<Rightarrow> Inl e
      | Inr (arrays, off) \<Rightarrow> Inr arrays)"

text \<open>
  Modelled from the spec: a transition pattern without a decomposition rule makes the
  input table malformed. A table is ruled when the rule knows every descriptor in it.
\<close>

definition ruledTable :: "Rule \<Rightarrow> PatchTables \<Rightarrow> bool" where
  "ruledTable rule table = list_all (\<lambda>g. rule (gDescriptor g) \<noteq> NoRule) table"

text \<open>
  The running offsets when the traversal reaches the \<open>i\<close>-th group, and the arrays
  emitted for that group there (none where the table has no \<open>i\<close>-th group).
\<close>

definition runningOffsets :: "NumCV \<Rightarrow> PatchTables \<Rightarrow> nat \<Rightarrow> Offsets" where
  "runningOffsets numCV table i = foldl (advance numCV) zeroOffsets (take i table)"

definition emittedFor :: "NumCV \<Rightarrow> Rule \<Rightarrow> PatchTables \<Rightarrow> nat \<Rightarrow> error + PatchArray list" where
  "emittedFor numCV rule table i =
     (if i < length table
      then (case convertGroup numCV rule (runningOffsets numCV table i) (table ! i) of
              Inl e \<Rightarrow> Inl e
            | Inr (arrays, off) \<Rightarrow> Inr arrays)
      else Inr [])"

text \<open>
  One conversion pass: the converter, then the three packers once each, into fresh
  outputs.
\<close>

record 'f Conversion =
  patchArrays :: "PatchArray list"
  vertexBuffer :: "Index list"
  sharpnessBuffer :: "c_uint list"
  fvarBuffer :: "'f list"

definition conversionPass ::
  "NumCV \<Rightarrow> Rule \<Rightarrow> PatchTables \<Rightarrow> nat \<Rightarrow> 'f list \<Rightarrow> error + 'f Conversion" where
  "conversionPass numCV rule table fvarWidth src =
     (case ConvertPatchArrays numCV rule table of
        Inl e \<Rightarrow> Inl e
      | Inr arrays \<Rightarrow>
          (case packPatchVerts numCV table of
             Inl e \<Rightarrow> Inl e
           | Inr verts \<Rightarrow>
               (case packFVarData table fvarWidth src of
                  Inl e \<Rightarrow> Inl e
                | Inr fvar \<Rightarrow>
                    Inr \<lparr>patchArrays = arrays, vertexBuffer = verts,
                         sharpnessBuffer = packSharpnessValues table,
                         fvarBuffer = fvar\<rparr>)))"

section \<open>An example table\<close>

text \<open>
  A table for the concrete instances below: a regular group of two patches, directly
  tessellable, then a transition group of one patch whose pattern decomposes into three
  sub-patches. The control-vertex counts and the rule are examples of the two
  parameters.
\<close>

definition regularDesc :: PatchDescriptor where
  "regularDesc = \<lparr>ptype = REGULAR, pattern = 0, rotation = 0\<rparr>"

definition transitionDesc :: PatchDescriptor where
  "transitionDesc = \<lparr>ptype = TRANSITION, pattern = 1, rotation = 0\<rparr>"

definition subDesc :: "nat \<Rightarrow> PatchDescriptor" where
  "subDesc r = \<lparr>ptype = TRANSITION, pattern = 0, rotation = r\<rparr>"

definition exampleNumCV :: NumCV where
  "exampleNumCV d = (if ptype d = REGULAR \<or> ptype d = TRANSITION then 16 else 4)"

definition exampleRule :: Rule where
  "exampleRule d =
     (if ptype d \<noteq> TRANSITION \<or> pattern d = 0 then Direct
      else if pattern d = 1 then Split [subDesc 0, subDesc 1, subDesc 2]
      else NoRule)"

definition examplePatch :: "Index \<Rightarrow> NativePatch" where
  "examplePatch v =
     \<lparr>pVerts = map (\<lambda>k. v + of_nat k) [0..<16], pSharpness = [], pQuadOffsets = [],
      pFVarSource = []\<rparr>"

definition regularGroup :: NativeGroup where
  "regularGroup = \<lparr>gDescriptor = regularDesc, gPatches = [examplePatch 0, examplePatch 16]\<rparr>"

definition transitionGroup :: NativeGroup where
  "transitionGroup = \<lparr>gDescriptor = transitionDesc, gPatches = [examplePatch 32]\<rparr>"

definition exampleTable :: PatchTables where
  "exampleTable = [regularGroup, transitionGroup]"

definition emptyGroup :: NativeGroup where
  "emptyGroup = \<lparr>gDescriptor = transitionDesc, gPatches = []\<rparr>"



text \<open>The group of the spec's first scenario: regular patches, four of them.\<close>

definition fourRegular :: NativeGroup where
  "fourRegular =
     \<lparr>gDescriptor = regularDesc,
      gPatches = [examplePatch 0, examplePatch 16, examplePatch 32, examplePatch 48]\<rparr>"

section \<open>Properties of PatchArray and DrawContext\<close>

lemma uint_sint_mod_32: "uint (x :: 32 word) = sint x mod 2 ^ 32"
  using uint_sint [of x] by (simp add: take_bit_eq_mod)

lemma uint_sint_nonneg: "0 \<le> sint (x :: 32 word) \<Longrightarrow> uint x = sint x"
  using sint_lt [of x] by (simp add: uint_sint_mod_32)

lemma call_offsets:
  "m_vertIndex (call pa c) = m_vertIndex pa \<and>
   m_patchIndex (call pa c) = m_patchIndex pa \<and>
   m_quadOffsetIndex (call pa c) = m_quadOffsetIndex pa"
  by (cases c) (simp_all add: SetDescriptor_def SetNumPatches_def)

lemma foldl_call_offsets:
  "m_vertIndex (foldl call pa cs) = m_vertIndex pa \<and>
   m_patchIndex (foldl call pa cs) = m_patchIndex pa \<and>
   m_quadOffsetIndex (foldl call pa cs) = m_quadOffsetIndex pa"
  by (induction cs arbitrary: pa) (simp_all add: call_offsets)

lemma ctxCall_frame:
  "m_maxValence (ctxCall c x) = m_maxValence c \<and>
   m_isAdaptive (ctxCall c x) = m_isAdaptive c"
  by (cases x) (simp_all add: GetPatchArrays_writable_def)

lemma foldl_ctxCall_frame:
  "m_maxValence (foldl ctxCall c xs) = m_maxValence c \<and>
   m_isAdaptive (foldl ctxCall c xs) = m_isAdaptive c"
  by (induction xs arbitrary: c) (simp_all add: ctxCall_frame)

text \<open>
  C1. In every state of a PatchArray, and so in every state that a sequence of
  SetNumPatches and SetDescriptor calls reaches from any PatchArray, GetNumIndices()
  is GetNumPatches() times GetDescriptor().GetNumControlVertices(), as a product of
  \<^verbatim>\<open>unsigned int\<close>: the second conjunct reads the same equation on the values, modulo
  \<open>2 ^ 32\<close>.
\<close>

theorem GetNumIndices_consistent:
  "GetNumIndices numCV (calls cs pa) =
     GetNumPatches (calls cs pa) * int_to_unsigned (numCV (GetDescriptor (calls cs pa))) \<and>
   uint (GetNumIndices numCV (calls cs pa)) =
     (uint (GetNumPatches (calls cs pa)) *
      uint (int_to_unsigned (numCV (GetDescriptor (calls cs pa))))) mod 2 ^ 32"
  by (simp add: GetNumIndices_def GetNumPatches_def GetDescriptor_def int_to_unsigned_def
      uint_word_ariths)

lemma perform_offsets:
  "m_vertIndex (perform pa x) = m_vertIndex (case x of OpCall c \<Rightarrow> pa | OpAssign rhs \<Rightarrow> rhs) \<and>
   m_patchIndex (perform pa x) = m_patchIndex (case x of OpCall c \<Rightarrow> pa | OpAssign rhs \<Rightarrow> rhs) \<and>
   m_quadOffsetIndex (perform pa x) =
     m_quadOffsetIndex (case x of OpCall c \<Rightarrow> pa | OpAssign rhs \<Rightarrow> rhs)"
  by (cases x) (simp_all add: call_offsets operator_assign_def)

lemma foldl_perform_offsets:
  "m_vertIndex (foldl perform pa os) =
     m_vertIndex (case lastAssigned os of None \<Rightarrow> pa | Some rhs \<Rightarrow> rhs) \<and>
   m_patchIndex (foldl perform pa os) =
     m_patchIndex (case lastAssigned os of None \<Rightarrow> pa | Some rhs \<Rightarrow> rhs) \<and>
   m_quadOffsetIndex (foldl perform pa os) =
     m_quadOffsetIndex (case lastAssigned os of None \<Rightarrow> pa | Some rhs \<Rightarrow> rhs)"
proof (induction os arbitrary: pa)
  case Nil
  show ?case by simp
next
  case (Cons x os)
  show ?case
  proof (cases x)
    case (OpCall c)
    with Cons [of "call pa c"] show ?thesis
      by (simp add: call_offsets split: option.splits)
  next
    case (OpAssign rhs)
    with Cons [of "operator_assign rhs pa"] show ?thesis
      by (simp add: operator_assign_def split: option.splits)
  qed
qed

text \<open>
  C6, as amended. SetNumPatches and SetDescriptor leave GetVertIndex(),
  GetPatchIndex() and GetQuadOffsetIndex() as they were, and so does every sequence of
  setter calls. The one operation of the class that changes them after construction is
  the assignment of a whole PatchArray, which gives the three offsets of the assigned
  value: after any sequence of setter calls and assignments the offsets are those of
  the value assigned last, and the original ones when nothing was assigned.
\<close>

theorem offsets_changed_by_assignment_only:
  "GetVertIndex (SetNumPatches n pa) = GetVertIndex pa \<and>
   GetPatchIndex (SetNumPatches n pa) = GetPatchIndex pa \<and>
   GetQuadOffsetIndex (SetNumPatches n pa) = GetQuadOffsetIndex pa \<and>
   GetVertIndex (SetDescriptor d pa) = GetVertIndex pa \<and>
   GetPatchIndex (SetDescriptor d pa) = GetPatchIndex pa \<and>
   GetQuadOffsetIndex (SetDescriptor d pa) = GetQuadOffsetIndex pa \<and>
   GetVertIndex (calls cs pa) = GetVertIndex pa \<and>
   GetPatchIndex (calls cs pa) = GetPatchIndex pa \<and>
   GetQuadOffsetIndex (calls cs pa) = GetQuadOffsetIndex pa \<and>
   GetVertIndex (operator_assign rhs pa) = GetVertIndex rhs \<and>
   GetPatchIndex (operator_assign rhs pa) = GetPatchIndex rhs \<and>
   GetQuadOffsetIndex (operator_assign rhs pa) = GetQuadOffsetIndex rhs \<and>
   GetVertIndex (performAll os pa) =
     GetVertIndex (case lastAssigned os of None \<Rightarrow> pa | Some later \<Rightarrow> later) \<and>
   GetPatchIndex (performAll os pa) =
     GetPatchIndex (case lastAssigned os of None \<Rightarrow> pa | Some later \<Rightarrow> later) \<and>
   GetQuadOffsetIndex (performAll os pa) =
     GetQuadOffsetIndex (case lastAssigned os of None \<Rightarrow> pa | Some later \<Rightarrow> later)"
  by (simp add: GetVertIndex_def GetPatchIndex_def GetQuadOffsetIndex_def
      SetNumPatches_def SetDescriptor_def calls_def foldl_call_offsets
      operator_assign_def performAll_def foldl_perform_offsets)

text \<open>
  C6 as stated says that the class exposes no operation that changes the offsets. The
  assignment does: a PatchArray at offsets 64, 4 and 0 that is assigned one at 99, 98
  and 97 has these afterwards.
\<close>

theorem offsets_assignment_counterexample:
  "GetVertIndex (PatchArray regularDesc 4 64 4 0) = 64 \<and>
   GetPatchIndex (PatchArray regularDesc 4 64 4 0) = 4 \<and>
   GetQuadOffsetIndex (PatchArray regularDesc 4 64 4 0) = 0 \<and>
   GetVertIndex
     (operator_assign (PatchArray regularDesc 1 99 98 97) (PatchArray regularDesc 4 64 4 0)) = 99 \<and>
   GetPatchIndex
     (operator_assign (PatchArray regularDesc 1 99 98 97) (PatchArray regularDesc 4 64 4 0)) = 98 \<and>
   GetQuadOffsetIndex
     (operator_assign (PatchArray regularDesc 1 99 98 97) (PatchArray regularDesc 4 64 4 0)) = 97"
  by (simp add: GetVertIndex_def GetPatchIndex_def GetQuadOffsetIndex_def PatchArray_def
      operator_assign_def int_to_unsigned_def)


text \<open>
  C8. The PatchArray constructed from \<open>(desc, n, v, p, q)\<close> returns exactly these from
  its getters. GetNumPatches, GetVertIndex, GetPatchIndex and GetQuadOffsetIndex return
  \<^verbatim>\<open>unsigned int\<close>: the bit pattern of the argument, whose value is the argument's
  modulo \<open>2 ^ 32\<close>, hence the argument itself for the counts and offsets of the data
  model, which are not negative.
\<close>

theorem PatchArray_getters:
  "GetDescriptor (PatchArray desc n v p q) = desc \<and>
   GetNumPatches (PatchArray desc n v p q) = int_to_unsigned n \<and>
   GetVertIndex (PatchArray desc n v p q) = int_to_unsigned v \<and>
   GetPatchIndex (PatchArray desc n v p q) = int_to_unsigned p \<and>
   GetQuadOffsetIndex (PatchArray desc n v p q) = int_to_unsigned q \<and>
   uint (GetNumPatches (PatchArray desc n v p q)) = sint n mod 2 ^ 32 \<and>
   uint (GetVertIndex (PatchArray desc n v p q)) = sint v mod 2 ^ 32 \<and>
   uint (GetPatchIndex (PatchArray desc n v p q)) = sint p mod 2 ^ 32 \<and>
   uint (GetQuadOffsetIndex (PatchArray desc n v p q)) = sint q mod 2 ^ 32 \<and>
   (0 \<le> sint n \<longrightarrow> uint (GetNumPatches (PatchArray desc n v p q)) = sint n) \<and>
   (0 \<le> sint v \<longrightarrow> uint (GetVertIndex (PatchArray desc n v p q)) = sint v) \<and>
   (0 \<le> sint p \<longrightarrow> uint (GetPatchIndex (PatchArray desc n v p q)) = sint p) \<and>
   (0 \<le> sint q \<longrightarrow> uint (GetQuadOffsetIndex (PatchArray desc n v p q)) = sint q)"
proof -
  have stored:
    "GetDescriptor (PatchArray desc n v p q) = desc"
    "GetNumPatches (PatchArray desc n v p q) = n"
    "GetVertIndex (PatchArray desc n v p q) = v"
    "GetPatchIndex (PatchArray desc n v p q) = p"
    "GetQuadOffsetIndex (PatchArray desc n v p q) = q"
    by (simp_all add: GetDescriptor_def GetNumPatches_def GetVertIndex_def GetPatchIndex_def
        GetQuadOffsetIndex_def PatchArray_def int_to_unsigned_def)
  have unsigned: "uint x = sint x mod 2 ^ 32" for x :: "32 word"
    by (rule uint_sint_mod_32)
  have nonneg: "0 \<le> sint x \<longrightarrow> uint x = sint x" for x :: "32 word"
    by (simp add: uint_sint_nonneg)
  show ?thesis
    unfolding stored int_to_unsigned_def
    using unsigned [of n] unsigned [of v] unsigned [of p] unsigned [of q]
      nonneg [of n] nonneg [of v] nonneg [of p] nonneg [of q]
    by blast
qed

theorem PatchArray_getters_witness:
  "0 \<le> sint (4 :: c_int) \<and> 0 \<le> sint (64 :: Index) \<and> 0 \<le> sint (0 :: Index) \<and>
   GetDescriptor (PatchArray regularDesc 4 64 4 0) = regularDesc \<and>
   uint (GetNumPatches (PatchArray regularDesc 4 64 4 0)) = 4 \<and>
   uint (GetVertIndex (PatchArray regularDesc 4 64 4 0)) = 64 \<and>
   uint (GetPatchIndex (PatchArray regularDesc 4 64 4 0)) = 4 \<and>
   uint (GetQuadOffsetIndex (PatchArray regularDesc 4 64 4 0)) = 0"
  using PatchArray_getters [of regularDesc 4 64 4 0]
  by (simp add: int_to_unsigned_def)

text \<open>
  C9. Whatever maxValence is passed, a fresh context is not adaptive: the flag is the
  constant \<^verbatim>\<open>false\<close> of the initialiser list. No public operation of the class
  assigns the flag afterwards; it is a protected member, left to the code that runs
  the conversion pass for a derived context.
\<close>

theorem fresh_context_not_adaptive:
  "IsAdaptive (DrawContext m) = False \<and>
   IsAdaptive (DrawContext m) = IsAdaptive (DrawContext m') \<and>
   IsAdaptive (ctxCalls cs c) = IsAdaptive c"
  by (simp add: IsAdaptive_def DrawContext_def ctxCalls_def foldl_ctxCall_frame)

text \<open>
  C10. Whatever maxValence is passed, GetPatchArrays() of a fresh context is the empty
  vector.
\<close>

theorem fresh_context_no_patch_arrays:
  "GetPatchArrays (DrawContext m) = []"
  by (simp add: GetPatchArrays_def DrawContext_def)

section \<open>Properties of the converter and the packers\<close>

lemma advance_skip: "numPatches g = 0 \<Longrightarrow> advance numCV off g = off"
  by (simp add: advance_def quadContribution_def numPatches_def)

lemma convertGroup_offsets:
  "convertGroup numCV rule off g = Inr (arrays, off') \<Longrightarrow> off' = advance numCV off g"
  by (auto simp: convertGroup_def advance_skip split: if_splits sum.splits)

lemma convertLoop_offsets:
  "convertLoop numCV rule off gs = Inr (arrays, off') \<Longrightarrow> off' = foldl (advance numCV) off gs"
proof (induction gs arbitrary: off arrays)
  case Nil
  then show ?case by simp
next
  case (Cons g gs)
  then show ?case
    by (auto split: sum.splits prod.splits dest: convertGroup_offsets)
qed

lemma convertLoop_append:
  "convertLoop numCV rule off (xs @ ys) =
     (case convertLoop numCV rule off xs of
        Inl e \<Rightarrow> Inl e
      | Inr (pre, off') \<Rightarrow>
          (case convertLoop numCV rule off' ys of
             Inl e \<Rightarrow> Inl e
           | Inr (post, off'') \<Rightarrow> Inr (pre @ post, off'')))"
  by (induction xs arbitrary: off) (auto split: sum.splits prod.splits)

lemma unat_of_nat_count:
  "n < 2 ^ 31 \<Longrightarrow> unat (of_nat n :: 32 word) = n"
  by (simp add: unat_of_nat)

text \<open>
  The vertex-index packer is total on a valid table, and the length of its output is
  the sum over the groups of patch count times control-vertex count.
\<close>

lemma appendAll_patchVerts:
  "list_all (\<lambda>p. int (length (pVerts p)) = sint (numCV d)) ps \<Longrightarrow>
   \<exists>vs. appendAll (patchVerts numCV d) ps = Inr vs \<and>
        int (length vs) = int (length ps) * sint (numCV d)"
proof (induction ps)
  case Nil
  then show ?case by simp
next
  case (Cons p ps)
  then obtain vs where
    "appendAll (patchVerts numCV d) ps = Inr vs"
    "int (length vs) = int (length ps) * sint (numCV d)"
    by auto
  moreover have "patchVerts numCV d p = Inr (pVerts p)"
    and "int (length (pVerts p)) = sint (numCV d)"
    using Cons.prems by (simp_all add: patchVerts_def)
  ultimately show ?case
    by (simp add: algebra_simps)
qed

lemma packPatchVerts_total:
  "validTable numCV table \<Longrightarrow>
   \<exists>vs. packPatchVerts numCV table = Inr vs \<and>
        int (length vs) =
          (\<Sum>g\<leftarrow>table. int (numPatches g) * sint (numCV (gDescriptor g)))"
proof (induction table)
  case Nil
  then show ?case by (simp add: packPatchVerts_def)
next
  case (Cons g gs)
  then obtain vs where
    tl: "packPatchVerts numCV gs = Inr vs"
    "int (length vs) = (\<Sum>g\<leftarrow>gs. int (numPatches g) * sint (numCV (gDescriptor g)))"
    by (auto simp: validTable_def)
  from Cons.prems obtain ws where
    hd: "appendAll (patchVerts numCV (gDescriptor g)) (gPatches g) = Inr ws"
    "int (length ws) = int (numPatches g) * sint (numCV (gDescriptor g))"
    using appendAll_patchVerts [of numCV "gDescriptor g" "gPatches g"]
    by (auto simp: validTable_def validGroup_def numPatches_def)
  from tl hd show ?case
    by (simp add: packPatchVerts_def)
qed

text \<open>
  The spec's scenario of one regular group of four patches: one PatchArray of four
  patches at offset 0, and a vertex-index buffer of \<open>4 * 16 = 64\<close> indices.
\<close>

lemma scenario_four_regular_patches:
  "ConvertPatchArrays exampleNumCV exampleRule [fourRegular] =
     Inr [PatchArray regularDesc 4 0 0 0] \<and>
   (\<exists>vs. packPatchVerts exampleNumCV [fourRegular] = Inr vs \<and> length vs = 64)"
  by (simp add: ConvertPatchArrays_def convertGroup_def emit_def numPatches_def
      fourRegular_def exampleRule_def regularDesc_def zeroOffsets_def advance_def
      packPatchVerts_def patchVerts_def examplePatch_def exampleNumCV_def)

lemma convertGroup_ruled:
  "rule (gDescriptor g) \<noteq> NoRule \<Longrightarrow>
   \<exists>arrays. convertGroup numCV rule off g = Inr (arrays, advance numCV off g)"
  by (cases "rule (gDescriptor g)") (simp_all add: convertGroup_def emit_def advance_skip)

lemma emittedFor_append_earlier:
  "i < length gs \<Longrightarrow> emittedFor numCV rule (gs @ [g]) i = emittedFor numCV rule gs i"
  by (simp add: emittedFor_def runningOffsets_def nth_append)

lemma emittedFor_append_last:
  "convertGroup numCV rule (foldl (advance numCV) zeroOffsets gs) g = Inr (arrays, off) \<Longrightarrow>
   emittedFor numCV rule (gs @ [g]) (length gs) = Inr arrays"
  by (simp add: emittedFor_def runningOffsets_def)

text \<open>
  On a ruled table the converter succeeds, and its result is the arrays emitted for
  the first group, then those for the second, and so on.
\<close>

lemma convertLoop_parts:
  "ruledTable rule table \<Longrightarrow>
   \<exists>parts. length parts = length table \<and>
     convertLoop numCV rule zeroOffsets table =
       Inr (concat parts, foldl (advance numCV) zeroOffsets table) \<and>
     (\<forall>i<length table. emittedFor numCV rule table i = Inr (parts ! i))"
proof (induction table rule: rev_induct)
  case Nil
  show ?case by simp
next
  case (snoc g gs)
  let ?off = "foldl (advance numCV) zeroOffsets gs"
  from snoc.prems have ruled: "ruledTable rule gs" and g: "rule (gDescriptor g) \<noteq> NoRule"
    by (simp_all add: ruledTable_def)
  from snoc.IH [OF ruled] obtain parts where
    len: "length parts = length gs"
    and run: "convertLoop numCV rule zeroOffsets gs = Inr (concat parts, ?off)"
    and each: "\<forall>i<length gs. emittedFor numCV rule gs i = Inr (parts ! i)"
    by blast
  from convertGroup_ruled [where rule = rule and g = g and numCV = numCV and off = "?off", OF g]
  obtain arrays where
    grp: "convertGroup numCV rule ?off g = Inr (arrays, advance numCV ?off g)"
    by blast
  have "length (parts @ [arrays]) = length (gs @ [g])"
    using len by simp
  moreover have "convertLoop numCV rule zeroOffsets (gs @ [g]) =
      Inr (concat (parts @ [arrays]), foldl (advance numCV) zeroOffsets (gs @ [g]))"
    by (simp add: convertLoop_append run grp)
  moreover have "emittedFor numCV rule (gs @ [g]) i = Inr ((parts @ [arrays]) ! i)"
    if "i < length (gs @ [g])" for i
  proof (cases "i < length gs")
    case True
    with each len show ?thesis
      by (simp add: emittedFor_append_earlier nth_append)
  next
    case False
    with that have "i = length gs" by simp
    with len emittedFor_append_last [OF grp] show ?thesis
      by (simp add: nth_append)
  qed
  ultimately show ?case by blast
qed

text \<open>
  C2. On every valid input table (the group counts match the buffer lengths and every
  descriptor has a rule) ConvertPatchArrays succeeds, and its result is the
  concatenation, in table order, of the arrays emitted for each native group. For every
  group that is directly tessellable (not split), the patch counts of the arrays
  emitted for it sum to exactly the group's patch count.
\<close>

theorem direct_group_patch_count:
  assumes valid: "validTable numCV table"
    and ruled: "ruledTable rule table"
  shows "\<exists>parts. length parts = length table \<and>
           ConvertPatchArrays numCV rule table = Inr (concat parts) \<and>
           (\<forall>i<length table.
              emittedFor numCV rule table i = Inr (parts ! i) \<and>
              (rule (gDescriptor (table ! i)) = Direct \<longrightarrow>
                 sum_list (map (\<lambda>a. unat (GetNumPatches a)) (parts ! i)) =
                   numPatches (table ! i)))"
proof -
  from convertLoop_parts [OF ruled, of numCV] obtain parts where
    len: "length parts = length table"
    and run: "convertLoop numCV rule zeroOffsets table =
      Inr (concat parts, foldl (advance numCV) zeroOffsets table)"
    and each: "\<forall>i<length table. emittedFor numCV rule table i = Inr (parts ! i)"
    by blast
  have conv: "ConvertPatchArrays numCV rule table = Inr (concat parts)"
    by (simp add: ConvertPatchArrays_def run)
  have count: "sum_list (map (\<lambda>a. unat (GetNumPatches a)) (parts ! i)) = numPatches (table ! i)"
    if i: "i < length table" and direct: "rule (gDescriptor (table ! i)) = Direct" for i
  proof -
    let ?g = "table ! i"
    let ?off = "runningOffsets numCV table i"
    have "validGroup numCV ?g"
      using valid i by (simp add: validTable_def list_all_length)
    then have small: "numPatches ?g < 2 ^ 31"
      by (simp add: validGroup_def)
    define arrays where "arrays = (if numPatches ?g = 0 then []
      else [PatchArray (gDescriptor ?g) (of_nat (numPatches ?g))
              (vertexOffset ?off) (patchOffset ?off) (quadOffset ?off)])"
    have "\<exists>off2. convertGroup numCV rule ?off ?g = Inr (arrays, off2)"
      using direct by (simp add: convertGroup_def emit_def arrays_def)
    then have "emittedFor numCV rule table i = Inr arrays"
      using i by (auto simp: emittedFor_def)
    with each i have "parts ! i = arrays"
      by simp
    then show ?thesis
      using small
      by (simp add: arrays_def GetNumPatches_def PatchArray_def int_to_unsigned_def
          unat_of_nat_count)
  qed
  from len conv each count show ?thesis
    by blast
qed

lemma exampleTable_valid: "validTable exampleNumCV exampleTable"
  by (simp add: validTable_def validGroup_def exampleTable_def exampleNumCV_def
      regularGroup_def transitionGroup_def regularDesc_def transitionDesc_def
      examplePatch_def numPatches_def)

lemma exampleTable_ruled: "ruledTable exampleRule exampleTable"
  by (simp add: ruledTable_def exampleTable_def exampleRule_def
      regularGroup_def transitionGroup_def regularDesc_def transitionDesc_def)

theorem direct_group_patch_count_witness:
  "validTable exampleNumCV exampleTable \<and> ruledTable exampleRule exampleTable \<and>
   exampleRule (gDescriptor (exampleTable ! 0)) = Direct \<and>
   numPatches (exampleTable ! 0) = 2 \<and>
   (\<exists>parts. length parts = 2 \<and>
      ConvertPatchArrays exampleNumCV exampleRule exampleTable = Inr (concat parts) \<and>
      emittedFor exampleNumCV exampleRule exampleTable 0 = Inr (parts ! 0) \<and>
      emittedFor exampleNumCV exampleRule exampleTable 1 = Inr (parts ! 1) \<and>
      sum_list (map (\<lambda>a. unat (GetNumPatches a)) (parts ! 0)) = 2)"
proof -
  have len: "length exampleTable = 2"
    by (simp add: exampleTable_def)
  have direct: "exampleRule (gDescriptor (exampleTable ! 0)) = Direct"
    by (simp add: exampleTable_def regularGroup_def exampleRule_def regularDesc_def)
  have count: "numPatches (exampleTable ! 0) = 2"
    by (simp add: exampleTable_def regularGroup_def numPatches_def)
  from direct_group_patch_count [OF exampleTable_valid exampleTable_ruled]
  obtain parts where
    "length parts = length exampleTable"
    "ConvertPatchArrays exampleNumCV exampleRule exampleTable = Inr (concat parts)"
    "\<forall>i<length exampleTable.
       emittedFor exampleNumCV exampleRule exampleTable i = Inr (parts ! i) \<and>
       (exampleRule (gDescriptor (exampleTable ! i)) = Direct \<longrightarrow>
          sum_list (map (\<lambda>a. unat (GetNumPatches a)) (parts ! i)) =
            numPatches (exampleTable ! i))"
    by blast
  with len direct count have
    "length parts = 2 \<and>
     ConvertPatchArrays exampleNumCV exampleRule exampleTable = Inr (concat parts) \<and>
     emittedFor exampleNumCV exampleRule exampleTable 0 = Inr (parts ! 0) \<and>
     emittedFor exampleNumCV exampleRule exampleTable 1 = Inr (parts ! 1) \<and>
     sum_list (map (\<lambda>a. unat (GetNumPatches a)) (parts ! 0)) = 2"
    by simp
  with exampleTable_valid exampleTable_ruled direct count show ?thesis
    by blast
qed

text \<open>
  The result on the example table, computed: the regular group gives one array of its
  two patches, the transition group three arrays over the range that follows.
\<close>

lemma exampleTable_converted:
  "ConvertPatchArrays exampleNumCV exampleRule exampleTable =
     Inr [PatchArray regularDesc 2 0 0 0,
          PatchArray (subDesc 0) 1 32 2 0,
          PatchArray (subDesc 1) 1 32 2 0,
          PatchArray (subDesc 2) 1 32 2 0]"
  by (simp add: ConvertPatchArrays_def convertGroup_def emit_def numPatches_def
      exampleTable_def regularGroup_def transitionGroup_def exampleRule_def
      regularDesc_def transitionDesc_def zeroOffsets_def advance_def
      quadContribution_def isGregory_def exampleNumCV_def)




lemma appendAll_nothing:
  "list_all (\<lambda>x. f x = Inr []) xs \<Longrightarrow> appendAll f xs = Inr []"
  by (induction xs) simp_all

lemma convertLoop_nothing:
  "list_all (\<lambda>g. numPatches g = 0) table \<Longrightarrow>
   convertLoop numCV rule off table = Inr ([], off)"
  by (induction table) (simp_all add: convertGroup_def)

text \<open>
  C4. A table with no patches (the empty table, or groups of zero patches only) converts
  without error to an empty result: no PatchArray, and the vertex-index, sharpness and
  face-varying buffers empty. In any table, a group of zero patches emits nothing.
\<close>

theorem degenerate_input_empty_result:
  "(list_all (\<lambda>g. numPatches g = 0) table \<longrightarrow>
      ConvertPatchArrays numCV rule table = Inr [] \<and>
      packPatchVerts numCV table = Inr [] \<and>
      packSharpnessValues table = [] \<and>
      packFVarData table fvarWidth src = Inr [] \<and>
      conversionPass numCV rule table fvarWidth src =
        Inr \<lparr>patchArrays = [], vertexBuffer = [], sharpnessBuffer = [], fvarBuffer = []\<rparr>) \<and>
   (i < length table \<and> numPatches (table ! i) = 0 \<longrightarrow>
      emittedFor numCV rule table i = Inr [])"
proof (intro conjI impI)
  assume "i < length table \<and> numPatches (table ! i) = 0"
  then show "emittedFor numCV rule table i = Inr []"
    by (simp add: emittedFor_def convertGroup_def)
next
  assume empty: "list_all (\<lambda>g. numPatches g = 0) table"
  then have none: "list_all (\<lambda>g. gPatches g = []) table"
    by (simp add: numPatches_def)
  show arrays: "ConvertPatchArrays numCV rule table = Inr []"
    using empty by (simp add: ConvertPatchArrays_def convertLoop_nothing)
  have "list_all (\<lambda>g. appendAll (patchVerts numCV (gDescriptor g)) (gPatches g) = Inr []) table"
    using none by (induction table) simp_all
  then show verts: "packPatchVerts numCV table = Inr []"
    unfolding packPatchVerts_def by (rule appendAll_nothing)
  show sharp: "packSharpnessValues table = []"
    using none by (induction table) (simp_all add: packSharpnessValues_def)
  have "list_all (\<lambda>g. appendAll (\<lambda>p. appendAll (fvarAt fvarWidth src) (pFVarSource p))
      (gPatches g) = Inr []) table"
    using none by (induction table) simp_all
  then show fvar: "packFVarData table fvarWidth src = Inr []"
    unfolding packFVarData_def by (rule appendAll_nothing)
  show "conversionPass numCV rule table fvarWidth src =
      Inr \<lparr>patchArrays = [], vertexBuffer = [], sharpnessBuffer = [], fvarBuffer = []\<rparr>"
    by (simp add: conversionPass_def arrays verts sharp fvar)
qed

theorem degenerate_input_empty_result_witness:
  "ConvertPatchArrays exampleNumCV exampleRule [] = Inr [] \<and>
   packPatchVerts exampleNumCV [] = Inr [] \<and>
   packSharpnessValues [] = [] \<and>
   packFVarData [] 2 [1, 2 :: int] = Inr [] \<and>
   list_all (\<lambda>g. numPatches g = 0) [emptyGroup, emptyGroup] \<and>
   ConvertPatchArrays exampleNumCV exampleRule [emptyGroup, emptyGroup] = Inr [] \<and>
   packPatchVerts exampleNumCV [emptyGroup, emptyGroup] = Inr [] \<and>
   packSharpnessValues [emptyGroup, emptyGroup] = [] \<and>
   packFVarData [emptyGroup, emptyGroup] 2 [1, 2 :: int] = Inr [] \<and>
   numPatches ((exampleTable @ [emptyGroup]) ! 2) = 0 \<and>
   emittedFor exampleNumCV exampleRule (exampleTable @ [emptyGroup]) 2 = Inr []"
proof -
  have e: "list_all (\<lambda>g. numPatches g = 0) [emptyGroup, emptyGroup]"
    by (simp add: emptyGroup_def numPatches_def)
  have z: "numPatches ((exampleTable @ [emptyGroup]) ! 2) = 0"
    by (simp add: exampleTable_def emptyGroup_def numPatches_def)
  have l: "2 < length (exampleTable @ [emptyGroup])"
    by (simp add: exampleTable_def)
  show ?thesis
    using degenerate_input_empty_result [of "[]" exampleNumCV exampleRule 2 "[1, 2 :: int]" 0]
      degenerate_input_empty_result
        [of "[emptyGroup, emptyGroup]" exampleNumCV exampleRule 2 "[1, 2 :: int]" 0]
      degenerate_input_empty_result
        [of "exampleTable @ [emptyGroup]" exampleNumCV exampleRule 2 "[1, 2 :: int]" 2]
      e z l
    by simp
qed

end
